theory Spec2Isabelle
  imports Main "HOL-Library.Sublist" "HOL-Library.Word"
begin

section \<open>Environments and the store of maps\<close>

text \<open>
  \<^verbatim>\<open>Env\<close> is Go's \<^verbatim>\<open>map[string]string\<close>. A Go map is a reference: two variables may
  name the same map, and a write through one is seen through the other. The content of
  a map is a partial function; the maps themselves live in a store, and a value of type
  \<^verbatim>\<open>Env\<close> in the program is a reference into it.
\<close>

type_synonym Env = "string \<rightharpoonup> string"

type_synonym ref = nat

type_synonym store = "Env list"

text \<open>Reading a reference. A reference that was never allocated reads as the empty map.\<close>

definition deref :: "store \<Rightarrow> ref \<Rightarrow> Env" where
  "deref h r = (if r < length h then h ! r else Map.empty)"

text \<open>\<^verbatim>\<open>make(Env)\<close> followed by filling the new map: the next free cell of the store.\<close>

definition alloc :: "store \<Rightarrow> Env \<Rightarrow> ref \<times> store" where
  "alloc h e = (length h, h @ [e])"

text \<open>The index expression \<^verbatim>\<open>env[key]\<close>: the zero value \<^verbatim>\<open>""\<close> for a missing key.\<close>

definition getenv :: "Env \<Rightarrow> string \<Rightarrow> string" where
  "getenv e k = (case e k of None \<Rightarrow> '''' | Some v \<Rightarrow> v)"

text \<open>
  Modelled from the spec: the names of the environment variables (the constants
  \<^verbatim>\<open>DIRENV_CONFIG\<close>, \<^verbatim>\<open>DIRENV_BASH\<close>, \<^verbatim>\<open>DIRENV_DIR\<close>, \<^verbatim>\<open>DIRENV_WATCHES\<close> and \<^verbatim>\<open>DIRENV_DIFF\<close>
  are declared outside \<^verbatim>\<open>config.go\<close>); section 6 of the specification lists them.
\<close>

definition DIRENV_CONFIG :: string where "DIRENV_CONFIG = ''DIRENV_CONFIG''"
definition DIRENV_BASH :: string where "DIRENV_BASH = ''DIRENV_BASH''"
definition DIRENV_DIR :: string where "DIRENV_DIR = ''DIRENV_DIR''"
definition DIRENV_WATCHES :: string where "DIRENV_WATCHES = ''DIRENV_WATCHES''"
definition DIRENV_DIFF :: string where "DIRENV_DIFF = ''DIRENV_DIFF''"

text \<open>
  Modelled from the spec: \<^verbatim>\<open>Env.Fetch\<close> (declared outside \<^verbatim>\<open>config.go\<close>): the value of the
  variable, or the default when the variable is unset.
\<close>

definition Fetch :: "Env \<Rightarrow> string \<Rightarrow> string \<Rightarrow> string" where
  "Fetch e k def = (case e k of None \<Rightarrow> def | Some v \<Rightarrow> v)"

text \<open>
  Modelled from the spec: \<^verbatim>\<open>Env.Copy\<close> (declared outside \<^verbatim>\<open>config.go\<close>): "returns a copy
  of currentEnv unchanged"; "every transformation produces a new snapshot".
\<close>

definition Copy :: "ref \<Rightarrow> store \<Rightarrow> ref \<times> store" where
  "Copy env h = alloc h (deref h env)"

section \<open>Environment diffs\<close>

text \<open>
  Modelled from the spec: the type \<^verbatim>\<open>EnvDiff\<close> and its operations are declared outside
  \<^verbatim>\<open>config.go\<close>. Section 3: "a mapping from variable name to (old value or absent, new
  value or absent)".
\<close>

type_synonym EnvDiff = "string \<rightharpoonup> (string option \<times> string option)"

text \<open>
  Modelled from the spec: \<^verbatim>\<open>Compute(before, after)\<close>, section 4.3: "for every key present
  in either snapshot, record (old,new) only if they differ; keys unchanged are omitted".
\<close>

definition Compute :: "Env \<Rightarrow> Env \<Rightarrow> EnvDiff" where
  "Compute envBefore envAfter =
     (\<lambda>k. if envBefore k = envAfter k then None else Some (envBefore k, envAfter k))"

text \<open>
  Modelled from the spec: \<^verbatim>\<open>EnvDiff.Reverse\<close>, section 4.3: "swaps old/new in every
  entry".
\<close>

definition Reverse :: "EnvDiff \<Rightarrow> EnvDiff" where
  "Reverse d = (\<lambda>k. case d k of None \<Rightarrow> None | Some (old, new) \<Rightarrow> Some (new, old))"

text \<open>
  Modelled from the spec: \<^verbatim>\<open>Apply(diff, env)\<close>, section 4.3: "for each entry, if new is
  absent, delete the key from env; otherwise set it to new; all keys not mentioned pass
  through unchanged".
\<close>

definition Apply :: "EnvDiff \<Rightarrow> Env \<Rightarrow> Env" where
  "Apply d env =
     (\<lambda>k. case d k of
             None \<Rightarrow> env k
           | Some (old, None) \<Rightarrow> None
           | Some (old, Some v) \<Rightarrow> Some v)"

text \<open>
  Modelled from the spec: \<^verbatim>\<open>EnvDiff.Patch\<close> (declared outside \<^verbatim>\<open>config.go\<close>) is the
  specification's \<^verbatim>\<open>Apply\<close> on a map of the store: it "produces a new snapshot, never
  mutates the input".
\<close>

definition Patch :: "EnvDiff \<Rightarrow> ref \<Rightarrow> store \<Rightarrow> ref \<times> store" where
  "Patch d env h = alloc h (Apply d (deref h env))"

section \<open>The configuration\<close>

text \<open>\<^verbatim>\<open>time.Duration\<close> is an \<^verbatim>\<open>int64\<close> count of nanoseconds.\<close>

type_synonym Duration = "64 word"

definition Second :: Duration where
  "Second = 1000000000"

text \<open>
  A Go \<^verbatim>\<open>error\<close>. The errors \<^verbatim>\<open>LoadConfig\<close> builds with \<^verbatim>\<open>fmt.Errorf\<close> are one
  constructor each, holding the error they wrap; \<^verbatim>\<open>External\<close> is an error that came from
  outside \<^verbatim>\<open>config.go\<close> (the operating system, the TOML decoder, the diff decoder).
\<close>

datatype error =
    External string
  | NoConfigDir
  | ExecutableFailed error
  | GetwdFailed error
  | TomlParseFailed string error
  | NoBash error
  | NoCacheDir
  | NoDataDir

record Config =
  Env :: ref
  WorkDir :: string
  ConfDir :: string
  CacheDir :: string
  DataDir :: string
  SelfPath :: string
  BashBuiltin :: bool
  BashPath :: string
  RCDir :: string
  TomlPath :: string
  DisableStdin :: bool
  StrictEnv :: bool
  WarnTimeout :: Duration
  WhitelistPrefix :: "string list"
  WhitelistExact :: "string \<rightharpoonup> bool"

section \<open>Revert\<close>

text \<open>
  \<^verbatim>\<open>Config.Revert\<close> (config.go, lines 213-222). \<^verbatim>\<open>LoadEnvDiff\<close>, the decoder of the
  recorded diff, is declared outside \<^verbatim>\<open>config.go\<close> and its format is not specified: it is
  a parameter. The result is the pair the Go function returns, as a sum
  (\<^verbatim>\<open>nil, err\<close> is \<open>Inl err\<close>), and the store after the call.
\<close>

definition Revert ::
  "(string \<Rightarrow> error + EnvDiff) \<Rightarrow> Config \<Rightarrow> ref \<Rightarrow> store \<Rightarrow> (error + ref) \<times> store" where
  "Revert LoadEnvDiff config env h =
     (if getenv (deref h (Env config)) DIRENV_DIFF = '''' then
        (case Copy env h of (r, h') \<Rightarrow> (Inr r, h'))
      else
        (case LoadEnvDiff (getenv (deref h (Env config)) DIRENV_DIFF) of
           Inr diff \<Rightarrow> (case Patch (Reverse diff) env h of (r, h') \<Rightarrow> (Inr r, h'))
         | Inl err \<Rightarrow> (Inl err, h)))"

section \<open>Library functions of Go used by \<^verbatim>\<open>config.go\<close>\<close>

text \<open>
  \<^verbatim>\<open>strings.Replace\<close> as line 84 calls it: every backslash (byte 0x5C) becomes a slash.
\<close>

definition backslashToSlash :: "string \<Rightarrow> string" where
  "backslashToSlash s = map (\<lambda>c. if c = CHR 0x5C then CHR ''/'' else c) s"

text \<open>\<^verbatim>\<open>strings.HasSuffix(s, suffix)\<close>.\<close>

definition HasSuffix :: "string \<Rightarrow> string \<Rightarrow> bool" where
  "HasSuffix s suf = suffix suf s"

text \<open>\<^verbatim>\<open>strings.Join(elems, "/")\<close>: the elements, empty ones too, with a slash between.\<close>

fun joinSep :: "string list \<Rightarrow> string" where
  "joinSep [] = ''''"
| "joinSep [e] = e"
| "joinSep (e # es) = e @ ''/'' @ joinSep es"

text \<open>
  \<^verbatim>\<open>filepath.Clean\<close> of Go's standard library, on Unix paths, after its documented rules:
  runs of separators count as one; a \<^verbatim>\<open>.\<close> element is dropped; a \<^verbatim>\<open>..\<close> element removes
  the element before it when that one is not \<^verbatim>\<open>..\<close>; a \<^verbatim>\<open>..\<close> that begins a rooted path
  is dropped; the empty result is \<^verbatim>\<open>.\<close>. \<open>pathElems\<close> reads the non-empty elements between
  separators (its first argument is the element being read), \<open>cleanElems\<close> is the scan
  over them with the elements kept so far.
\<close>

fun pathElems :: "string \<Rightarrow> string \<Rightarrow> string list" where
  "pathElems cur [] = (if cur = [] then [] else [cur])"
| "pathElems cur (c # cs) =
     (if c = CHR ''/'' then (if cur = [] then [] else [cur]) @ pathElems [] cs
      else pathElems (cur @ [c]) cs)"

fun cleanElems :: "bool \<Rightarrow> string list \<Rightarrow> string list \<Rightarrow> string list" where
  "cleanElems rooted out [] = out"
| "cleanElems rooted out (e # es) =
     (if e = ''.'' then cleanElems rooted out es
      else if e = ''..'' then
        (if out \<noteq> [] \<and> last out \<noteq> ''..'' then cleanElems rooted (butlast out) es
         else if rooted then cleanElems rooted out es
         else cleanElems rooted (out @ [''..'']) es)
      else cleanElems rooted (out @ [e]) es)"

definition Clean :: "string \<Rightarrow> string" where
  "Clean path =
     (if path = '''' then ''.''
      else
        let rooted = (hd path = CHR ''/'');
            out = cleanElems rooted [] (pathElems [] path);
            s = (if rooted then ''/'' else '''') @ joinSep out
        in if s = '''' then ''.'' else s)"

text \<open>
  \<^verbatim>\<open>filepath.Join\<close>: the leading empty elements are ignored, the rest is joined with
  slashes and cleaned; no element at all, or only empty ones, give the empty string.
\<close>

fun Join :: "string list \<Rightarrow> string" where
  "Join [] = ''''"
| "Join (e # es) = (if e = '''' then Join es else Clean (joinSep (e # es)))"

section \<open>The TOML file and the world outside the program\<close>

text \<open>
  \<^verbatim>\<open>tomlGlobal\<close>, \<^verbatim>\<open>tomlWhitelist\<close> and \<^verbatim>\<open>tomlConfig\<close> (config.go, lines 44-61), the fields
  of \<^verbatim>\<open>tomlGlobal\<close> under their TOML keys. In \<^verbatim>\<open>LoadConfig\<close> the embedded pointer and the
  \<^verbatim>\<open>Global\<close> pointer of \<^verbatim>\<open>tomlConfig\<close> are the same struct, so a decoded file is one
  \<^verbatim>\<open>tomlGlobal\<close> and one \<^verbatim>\<open>tomlWhitelist\<close>.
\<close>

record tomlGlobal =
  bash_builtin :: bool
  bash_path :: string
  disable_stdin :: bool
  strict_env :: bool
  warn_timeout :: Duration

record tomlWhitelist =
  Prefix :: "string list"
  Exact :: "string list"

record tomlConfig =
  Global :: tomlGlobal
  Whitelist :: tomlWhitelist

text \<open>
  What \<^verbatim>\<open>LoadConfig\<close> asks of its surroundings: the package \<^verbatim>\<open>xdg\<close> of this repository
  (declared outside \<^verbatim>\<open>config.go\<close>; a directory that cannot be resolved is \<^verbatim>\<open>""\<close>), the
  operating system (\<^verbatim>\<open>os.Stat\<close> is \<open>True\<close> when it returns no error), the TOML decoder,
  \<^verbatim>\<open>time.ParseDuration\<close>, \<^verbatim>\<open>exec.LookPath\<close>, and the package variable \<^verbatim>\<open>bashPath\<close>, the
  compiled-in default.
\<close>

record world =
  xdg_ConfigDir :: "Env \<Rightarrow> string \<Rightarrow> string"
  xdg_CacheDir :: "Env \<Rightarrow> string \<Rightarrow> string"
  xdg_DataDir :: "Env \<Rightarrow> string \<Rightarrow> string"
  os_Executable :: "error + string"
  os_Getwd :: "error + string"
  os_Stat :: "string \<Rightarrow> bool"
  toml_DecodeFile :: "string \<Rightarrow> error + tomlConfig"
  time_ParseDuration :: "string \<Rightarrow> error + Duration"
  exec_LookPath :: "string \<Rightarrow> error + string"
  bashPath :: string

section \<open>LoadConfig\<close>

text \<open>
  \<^verbatim>\<open>LoadConfig\<close> (config.go, lines 64-177) fills the fields of one \<^verbatim>\<open>Config\<close> in order
  and returns at the first error. Each block of the function is one definition here, from
  the configuration so far to the configuration after the block, or to the error the
  block returns with; \<open>LoadConfig\<close> chains them. Go returns the named result \<^verbatim>\<open>config\<close>
  beside the error; a caller reads it only when the error is \<^verbatim>\<open>nil\<close>, and the result
  here is the error alone. The messages written by \<^verbatim>\<open>logError\<close> are not part of the
  result.
\<close>

text \<open>Lines 65-67: \<^verbatim>\<open>&Config{Env: env}\<close>, every other field at its zero value.\<close>

definition newConfig :: "ref \<Rightarrow> Config" where
  "newConfig env =
     \<lparr>Env = env, WorkDir = '''', ConfDir = '''', CacheDir = '''', DataDir = '''',
      SelfPath = '''', BashBuiltin = False, BashPath = '''', RCDir = '''', TomlPath = '''',
      DisableStdin = False, StrictEnv = False, WarnTimeout = 0,
      WhitelistPrefix = [], WhitelistExact = Map.empty\<rparr>"

text \<open>Lines 69-76.\<close>

definition loadConfDir :: "world \<Rightarrow> Env \<Rightarrow> Config \<Rightarrow> error + Config" where
  "loadConfDir w env config =
     (let c1 = config\<lparr>ConfDir := getenv env DIRENV_CONFIG\<rparr>;
          c2 = (if ConfDir c1 = '''' then c1\<lparr>ConfDir := xdg_ConfigDir w env ''direnv''\<rparr>
                else c1)
      in if ConfDir c2 = '''' then Inl NoConfigDir else Inr c2)"

text \<open>Lines 78-85.\<close>

definition loadSelfPath :: "world \<Rightarrow> Config \<Rightarrow> error + Config" where
  "loadSelfPath w config =
     (case os_Executable w of
        Inl err \<Rightarrow> Inl (ExecutableFailed err)
      | Inr exePath \<Rightarrow> Inr (config\<lparr>SelfPath := backslashToSlash exePath\<rparr>))"

text \<open>Lines 87-90.\<close>

definition loadWorkDir :: "world \<Rightarrow> Config \<Rightarrow> error + Config" where
  "loadWorkDir w config =
     (case os_Getwd w of
        Inl err \<Rightarrow> Inl (GetwdFailed err)
      | Inr wd \<Rightarrow> Inr (config\<lparr>WorkDir := wd\<rparr>))"

text \<open>
  Lines 92-95; \<^verbatim>\<open>s[0:1]\<close> is \<open>take 1 s\<close> and \<^verbatim>\<open>s[1:]\<close> is \<open>drop 1 s\<close>, both within
  range under the length test.
\<close>

definition loadRCDir :: "Env \<Rightarrow> Config \<Rightarrow> Config" where
  "loadRCDir env config =
     (let c1 = config\<lparr>RCDir := getenv env DIRENV_DIR\<rparr>
      in if length (RCDir c1) > 0 \<and> take 1 (RCDir c1) = ''-''
         then c1\<lparr>RCDir := drop 1 (RCDir c1)\<rparr>
         else c1)"

text \<open>Lines 101-107: \<^verbatim>\<open>direnv.toml\<close>, else \<^verbatim>\<open>config.toml\<close>, else no file.\<close>

definition findTomlPath :: "world \<Rightarrow> string \<Rightarrow> string" where
  "findTomlPath w confDir =
     (if os_Stat w (Join [confDir, ''direnv.toml'']) then Join [confDir, ''direnv.toml'']
      else if os_Stat w (Join [confDir, ''config.toml'']) then Join [confDir, ''config.toml'']
      else '''')"

text \<open>Lines 126-128, the body of the loop over the exact entries.\<close>

definition exactPath :: "string \<Rightarrow> string" where
  "exactPath path = (if \<not> HasSuffix path ''/.envrc'' then Join [path, ''.envrc''] else path)"

text \<open>Lines 125-131, the loop: one key of the map for each entry, in order.\<close>

definition addExact :: "string list \<Rightarrow> (string \<rightharpoonup> bool) \<Rightarrow> (string \<rightharpoonup> bool)" where
  "addExact paths m = fold (\<lambda>path m'. m'(exactPath path \<mapsto> True)) paths m"

text \<open>Lines 97-138.\<close>

definition loadToml :: "world \<Rightarrow> Config \<Rightarrow> error + Config" where
  "loadToml w config =
     (let c1 = config\<lparr>WhitelistPrefix := [], WhitelistExact := Map.empty\<rparr>;
          c2 = c1\<lparr>TomlPath := findTomlPath w (ConfDir c1)\<rparr>
      in if TomlPath c2 \<noteq> '''' then
           (case toml_DecodeFile w (TomlPath c2) of
              Inl err \<Rightarrow> Inl (TomlParseFailed (TomlPath c2) err)
            | Inr tomlConf \<Rightarrow>
                Inr (c2\<lparr>WhitelistPrefix := WhitelistPrefix c2 @ Prefix (Whitelist tomlConf),
                        WhitelistExact := addExact (Exact (Whitelist tomlConf)) (WhitelistExact c2),
                        BashBuiltin := bash_builtin (Global tomlConf),
                        BashPath := bash_path (Global tomlConf),
                        DisableStdin := disable_stdin (Global tomlConf),
                        StrictEnv := strict_env (Global tomlConf),
                        WarnTimeout := warn_timeout (Global tomlConf)\<rparr>))
         else Inr c2)"

text \<open>Lines 140-147.\<close>

definition loadWarnTimeout :: "world \<Rightarrow> Env \<Rightarrow> Config \<Rightarrow> Config" where
  "loadWarnTimeout w env config =
     (if WarnTimeout config = 0 then
        (case time_ParseDuration w (Fetch env ''DIRENV_WARN_TIMEOUT'' ''5s'') of
           Inl err \<Rightarrow> config\<lparr>WarnTimeout := 5 * Second\<rparr>
         | Inr timeout \<Rightarrow> config\<lparr>WarnTimeout := timeout\<rparr>)
      else config)"

text \<open>Lines 149-158.\<close>

definition loadBashPath :: "world \<Rightarrow> Env \<Rightarrow> Config \<Rightarrow> error + Config" where
  "loadBashPath w env config =
     (if BashPath config = '''' then
        (if getenv env DIRENV_BASH \<noteq> '''' then Inr (config\<lparr>BashPath := getenv env DIRENV_BASH\<rparr>)
         else if bashPath w \<noteq> '''' then Inr (config\<lparr>BashPath := bashPath w\<rparr>)
         else (case exec_LookPath w ''bash'' of
                 Inl err \<Rightarrow> Inl (NoBash err)
               | Inr p \<Rightarrow> Inr (config\<lparr>BashPath := p\<rparr>)))
      else Inr config)"

text \<open>Lines 160-166.\<close>

definition loadCacheDir :: "world \<Rightarrow> Env \<Rightarrow> Config \<Rightarrow> error + Config" where
  "loadCacheDir w env config =
     (let c1 = (if CacheDir config = '''' then config\<lparr>CacheDir := xdg_CacheDir w env ''direnv''\<rparr>
                else config)
      in if CacheDir c1 = '''' then Inl NoCacheDir else Inr c1)"

text \<open>Lines 168-174.\<close>

definition loadDataDir :: "world \<Rightarrow> Env \<Rightarrow> Config \<Rightarrow> error + Config" where
  "loadDataDir w env config =
     (let c1 = (if DataDir config = '''' then config\<lparr>DataDir := xdg_DataDir w env ''direnv''\<rparr>
                else config)
      in if DataDir c1 = '''' then Inl NoDataDir else Inr c1)"

text \<open>
  The whole function. \<open>env\<close> is the reference the caller passes; the function reads the
  map and keeps the reference in the field \<^verbatim>\<open>Env\<close>.
\<close>

definition LoadConfig :: "world \<Rightarrow> store \<Rightarrow> ref \<Rightarrow> error + Config" where
  "LoadConfig w h env =
     (case loadConfDir w (deref h env) (newConfig env) of
        Inl err \<Rightarrow> Inl err
      | Inr c1 \<Rightarrow>
     (case loadSelfPath w c1 of
        Inl err \<Rightarrow> Inl err
      | Inr c2 \<Rightarrow>
     (case loadWorkDir w c2 of
        Inl err \<Rightarrow> Inl err
      | Inr c3 \<Rightarrow>
     (case loadToml w (loadRCDir (deref h env) c3) of
        Inl err \<Rightarrow> Inl err
      | Inr c4 \<Rightarrow>
     (case loadBashPath w (deref h env) (loadWarnTimeout w (deref h env) c4) of
        Inl err \<Rightarrow> Inl err
      | Inr c5 \<Rightarrow>
     (case loadCacheDir w (deref h env) c5 of
        Inl err \<Rightarrow> Inl err
      | Inr c6 \<Rightarrow> loadDataDir w (deref h env) c6))))))"

section \<open>The other methods of \<^verbatim>\<open>Config\<close>\<close>

text \<open>\<^verbatim>\<open>Config.AllowDir\<close> (lines 180-182).\<close>

definition AllowDir :: "Config \<Rightarrow> string" where
  "AllowDir config = Join [DataDir config, ''allow'']"




section \<open>What the theorems speak about\<close>

text \<open>
  The configuration directory of lines 69-72: \<^verbatim>\<open>DIRENV_CONFIG\<close> when it is set and not
  empty, the directory of \<^verbatim>\<open>xdg.ConfigDir\<close> otherwise.
\<close>

definition confDirOf :: "world \<Rightarrow> Env \<Rightarrow> string" where
  "confDirOf w env =
     (if getenv env DIRENV_CONFIG = '''' then xdg_ConfigDir w env ''direnv''
      else getenv env DIRENV_CONFIG)"

text \<open>
  The TOML file \<^verbatim>\<open>LoadConfig\<close> decodes (lines 101-121): none when neither
  \<^verbatim>\<open>direnv.toml\<close> nor \<^verbatim>\<open>config.toml\<close> exists in the configuration directory.
\<close>

definition tomlOf :: "world \<Rightarrow> Env \<Rightarrow> (error + tomlConfig) option" where
  "tomlOf w env =
     (if findTomlPath w (confDirOf w env) = '''' then None
      else Some (toml_DecodeFile w (findTomlPath w (confDirOf w env))))"

text \<open>The settings of the decoded file; the zero values when there is no file.\<close>

definition tomlBashPath :: "world \<Rightarrow> Env \<Rightarrow> string" where
  "tomlBashPath w env = (case tomlOf w env of Some (Inr t) \<Rightarrow> bash_path (Global t) | _ \<Rightarrow> '''')"

definition tomlWarnTimeout :: "world \<Rightarrow> Env \<Rightarrow> Duration" where
  "tomlWarnTimeout w env = (case tomlOf w env of Some (Inr t) \<Rightarrow> warn_timeout (Global t) | _ \<Rightarrow> 0)"

definition tomlPrefix :: "world \<Rightarrow> Env \<Rightarrow> string list" where
  "tomlPrefix w env = (case tomlOf w env of Some (Inr t) \<Rightarrow> Prefix (Whitelist t) | _ \<Rightarrow> [])"

definition tomlExact :: "world \<Rightarrow> Env \<Rightarrow> string list" where
  "tomlExact w env = (case tomlOf w env of Some (Inr t) \<Rightarrow> Exact (Whitelist t) | _ \<Rightarrow> [])"

text \<open>The value \<^verbatim>\<open>DIRENV_DIR\<close> without its marker: one leading \<^verbatim>\<open>-\<close> is dropped.\<close>

fun stripMarker :: "string \<Rightarrow> string" where
  "stripMarker [] = []"
| "stripMarker (c # cs) = (if c = CHR ''-'' then cs else c # cs)"

text \<open>A path whose last element is the script's file name.\<close>

definition endsInEnvrc :: "string \<Rightarrow> bool" where
  "endsInEnvrc p = (p = ''.envrc'' \<or> suffix ''/.envrc'' p)"

section \<open>Sample inputs\<close>

text \<open>
  The example of section 8 of the specification: the environment before the script ran,
  and after it, with the diff recorded under \<^verbatim>\<open>DIRENV_DIFF\<close> as the token \<^verbatim>\<open>diff-1\<close>.
\<close>

definition sampleBefore :: Env where
  "sampleBefore = [''PATH'' \<mapsto> ''/usr/bin'']"

definition sampleAfter :: Env where
  "sampleAfter =
     [''PATH'' \<mapsto> ''/usr/bin:/proj/bin'', ''FOO'' \<mapsto> ''bar'', ''DIRENV_DIFF'' \<mapsto> ''diff-1'']"

definition sampleCorrupt :: Env where
  "sampleCorrupt = [''PATH'' \<mapsto> ''/usr/bin:/proj/bin'', ''DIRENV_DIFF'' \<mapsto> ''%%%'']"

definition sampleDecode :: "string \<Rightarrow> error + EnvDiff" where
  "sampleDecode s =
     (if s = ''diff-1'' then Inr (Compute sampleBefore sampleAfter)
      else Inl (External ''malformed diff''))"

text \<open>
  A machine with \<^verbatim>\<open>direnv.toml\<close> in the configuration directory, no compiled-in bash and
  \<^verbatim>\<open>bash\<close> on the \<^verbatim>\<open>PATH\<close>; an environment with a pending revert and a warn timeout that
  is no duration.
\<close>

definition sampleToml :: tomlConfig where
  "sampleToml =
     \<lparr>Global = \<lparr>bash_builtin = False, bash_path = '''', disable_stdin = False,
                strict_env = True, warn_timeout = 0\<rparr>,
      Whitelist = \<lparr>Prefix = [''/home/x''], Exact = [''/home/x'', ''/srv/app/.envrc'']\<rparr>\<rparr>"

definition sampleWorld :: world where
  "sampleWorld =
     \<lparr>xdg_ConfigDir = (\<lambda>env name. ''/home/u/.config/'' @ name),
      xdg_CacheDir = (\<lambda>env name. ''/home/u/.cache/'' @ name),
      xdg_DataDir = (\<lambda>env name. ''/home/u/.local/share/'' @ name),
      os_Executable = Inr ''/usr/bin/direnv'',
      os_Getwd = Inr ''/proj/src'',
      os_Stat = (\<lambda>p. p = ''/home/u/.config/direnv/direnv.toml''),
      toml_DecodeFile =
        (\<lambda>p. if p = ''/home/u/.config/direnv/direnv.toml'' then Inr sampleToml
             else Inl (External ''no such file'')),
      time_ParseDuration =
        (\<lambda>s. if s = ''5s'' then Inr (5 * Second)
             else if s = ''1m'' then Inr (60 * Second)
             else Inl (External ''invalid duration'')),
      exec_LookPath =
        (\<lambda>f. if f = ''bash'' then Inr ''/bin/bash'' else Inl (External ''not found'')),
      bashPath = ''''\<rparr>"

definition sampleEnv :: Env where
  "sampleEnv = [''DIRENV_DIR'' \<mapsto> ''-/proj'', ''DIRENV_WARN_TIMEOUT'' \<mapsto> ''soon'',
                ''DIRENV_WATCHES'' \<mapsto> ''w1'']"


text \<open>The same machine without \<^verbatim>\<open>bash\<close> on the \<^verbatim>\<open>PATH\<close>.\<close>

definition bashlessWorld :: world where
  "bashlessWorld = sampleWorld\<lparr>exec_LookPath := (\<lambda>f. Inl (External ''not found''))\<rparr>"



text \<open>
  A machine whose TOML file sets \<^verbatim>\<open>bash_path\<close>, with a compiled-in default, and an
  environment that sets \<^verbatim>\<open>DIRENV_BASH\<close> as well.
\<close>

definition bashWorld :: world where
  "bashWorld =
     sampleWorld\<lparr>toml_DecodeFile :=
                   (\<lambda>p. Inr (sampleToml\<lparr>Global := (Global sampleToml)\<lparr>bash_path := ''/opt/bash''\<rparr>\<rparr>)),
                 bashPath := ''/usr/local/bin/bash''\<rparr>"

definition bashEnv :: Env where
  "bashEnv = [''DIRENV_BASH'' \<mapsto> ''/env/bash'']"

text \<open>The configuration \<^verbatim>\<open>LoadConfig\<close> builds on the sample machine.\<close>

definition sampleConfig :: Config where
  "sampleConfig =
     \<lparr>Env = 0, WorkDir = ''/proj/src'', ConfDir = ''/home/u/.config/direnv'',
      CacheDir = ''/home/u/.cache/direnv'', DataDir = ''/home/u/.local/share/direnv'',
      SelfPath = ''/usr/bin/direnv'', BashBuiltin = False, BashPath = ''/bin/bash'',
      RCDir = ''/proj'', TomlPath = ''/home/u/.config/direnv/direnv.toml'',
      DisableStdin = False, StrictEnv = True, WarnTimeout = 5000000000,
      WhitelistPrefix = [''/home/x''],
      WhitelistExact = [''/home/x/.envrc'' \<mapsto> True, ''/srv/app/.envrc'' \<mapsto> True]\<rparr>"

section \<open>Facts about the store and the sample inputs\<close>

lemma Apply_Compute: "Apply (Compute A B) A = B"
  by (rule ext) (simp add: Apply_def Compute_def split: option.splits)

lemma Apply_Reverse_Compute: "Apply (Reverse (Compute A B)) B = A"
  by (rule ext) (simp add: Apply_def Reverse_def Compute_def split: option.splits)

lemma Reverse_Reverse: "Reverse (Reverse d) = d"
  by (rule ext) (simp add: Reverse_def split: option.splits prod.splits)

lemma deref_single: "deref [e] 0 = e"
  by (simp add: deref_def)

lemma Env_newConfig: "Env (newConfig r) = r"
  by (simp add: newConfig_def)

lemma sampleAfter_diff: "getenv sampleAfter DIRENV_DIFF = ''diff-1''"
  by (simp add: getenv_def sampleAfter_def DIRENV_DIFF_def)

lemma sampleBefore_diff: "getenv sampleBefore DIRENV_DIFF = ''''"
  by (simp add: getenv_def sampleBefore_def DIRENV_DIFF_def)

lemma sampleCorrupt_diff: "getenv sampleCorrupt DIRENV_DIFF = ''%%%''"
  by (simp add: getenv_def sampleCorrupt_def DIRENV_DIFF_def)

lemma Revert_sampleAfter:
  "Revert sampleDecode (newConfig 0) 0 [sampleAfter] = (Inr 1, [sampleAfter, sampleBefore])"
  by (simp add: Revert_def Env_newConfig deref_single sampleAfter_diff sampleDecode_def
        Patch_def alloc_def Apply_Reverse_Compute)

section \<open>Revert\<close>

text \<open>
  Claim C1. For all environment snapshots \<open>A\<close> and \<open>B\<close>, applying the reverse of the diff
  computed between \<open>A\<close> and \<open>B\<close> to \<open>B\<close> gives exactly \<open>A\<close>. \<^verbatim>\<open>Revert\<close> realizes the law:
  when the recorded diff is not empty and decodes to the diff between \<open>A\<close> and \<open>B\<close>, and
  the supplied environment is \<open>B\<close>, \<^verbatim>\<open>Revert\<close> returns without error a new map, the next
  cell of the store, whose content is \<open>A\<close>.
\<close>

theorem Revert_restores:
  assumes "getenv (deref h (Env config)) DIRENV_DIFF \<noteq> ''''"
    and "LoadEnvDiff (getenv (deref h (Env config)) DIRENV_DIFF) = Inr (Compute A B)"
    and "deref h env = B"
  shows "Apply (Reverse (Compute A B)) B = A \<and>
         Revert LoadEnvDiff config env h = (Inr (length h), h @ [A]) \<and>
         deref (h @ [A]) (length h) = A"
proof -
  have law: "Apply (Reverse (Compute A B)) B = A"
    by (rule Apply_Reverse_Compute)
  have "Revert LoadEnvDiff config env h =
          (Inr (length h), h @ [Apply (Reverse (Compute A B)) B])"
    using assms by (simp add: Revert_def Patch_def alloc_def)
  with law show ?thesis by (simp add: deref_def)
qed

text \<open>
  The example of section 8: the environment after the script, which holds the recorded
  diff, is both the environment of the configuration and the one supplied.
\<close>

theorem Revert_restores_witness:
  "getenv (deref [sampleAfter] (Env (newConfig 0))) DIRENV_DIFF = ''diff-1'' \<and>
   sampleDecode ''diff-1'' = Inr (Compute sampleBefore sampleAfter) \<and>
   Revert sampleDecode (newConfig 0) 0 [sampleAfter] = (Inr 1, [sampleAfter, sampleBefore])"
proof -
  have g: "getenv (deref [sampleAfter] (Env (newConfig 0))) DIRENV_DIFF = ''diff-1''"
    by (simp add: Env_newConfig deref_single sampleAfter_diff)
  have d: "sampleDecode ''diff-1'' = Inr (Compute sampleBefore sampleAfter)"
    by (simp add: sampleDecode_def)
  have a: "getenv (deref [sampleAfter] (Env (newConfig 0))) DIRENV_DIFF \<noteq> ''''"
    by (simp add: g)
  have b: "sampleDecode (getenv (deref [sampleAfter] (Env (newConfig 0))) DIRENV_DIFF) =
           Inr (Compute sampleBefore sampleAfter)"
    by (simp add: g d)
  have c: "deref [sampleAfter] 0 = sampleAfter"
    by (rule deref_single)
  from Revert_restores [where LoadEnvDiff = sampleDecode, OF a b c] g d show ?thesis by simp
qed

text \<open>
  Claim C2. When no diff is recorded (\<^verbatim>\<open>DIRENV_DIFF\<close> of the configuration's environment
  is empty or unset), \<^verbatim>\<open>Revert\<close> returns a new map with the content of the supplied
  environment. Otherwise, when the recorded diff decodes to \<open>d\<close>, it returns a new map
  holding the supplied environment patched with the reverse of \<open>d\<close>.
\<close>

theorem Revert_branches:
  "(getenv (deref h (Env config)) DIRENV_DIFF = '''' \<longrightarrow>
      Revert LoadEnvDiff config env h = (Inr (length h), h @ [deref h env])) \<and>
   (getenv (deref h (Env config)) DIRENV_DIFF \<noteq> '''' \<longrightarrow>
    LoadEnvDiff (getenv (deref h (Env config)) DIRENV_DIFF) = Inr d \<longrightarrow>
      Revert LoadEnvDiff config env h =
        (Inr (length h), h @ [Apply (Reverse d) (deref h env)]))"
  by (simp add: Revert_def Copy_def Patch_def alloc_def)

theorem Revert_branches_witness:
  "getenv (deref [sampleBefore] (Env (newConfig 0))) DIRENV_DIFF = '''' \<and>
   Revert sampleDecode (newConfig 0) 0 [sampleBefore] = (Inr 1, [sampleBefore, sampleBefore]) \<and>
   getenv (deref [sampleAfter] (Env (newConfig 0))) DIRENV_DIFF \<noteq> '''' \<and>
   Revert sampleDecode (newConfig 0) 0 [sampleAfter] =
     (Inr 1, [sampleAfter, Apply (Reverse (Compute sampleBefore sampleAfter)) sampleAfter])"
proof -
  have g0: "getenv (deref [sampleBefore] (Env (newConfig 0))) DIRENV_DIFF = ''''"
    by (simp add: Env_newConfig deref_single sampleBefore_diff)
  have g1: "getenv (deref [sampleAfter] (Env (newConfig 0))) DIRENV_DIFF = ''diff-1''"
    by (simp add: Env_newConfig deref_single sampleAfter_diff)
  have d: "sampleDecode ''diff-1'' = Inr (Compute sampleBefore sampleAfter)"
    by (simp add: sampleDecode_def)
  have c0: "deref [sampleBefore] 0 = sampleBefore" and c1: "deref [sampleAfter] 0 = sampleAfter"
    by (simp_all add: deref_def)
  from Revert_branches [where h = "[sampleBefore]" and config = "newConfig 0"
      and LoadEnvDiff = sampleDecode and env = 0] g0 c0
  have r0: "Revert sampleDecode (newConfig 0) 0 [sampleBefore] =
            (Inr 1, [sampleBefore, sampleBefore])"
    by simp
  from Revert_branches [where h = "[sampleAfter]" and config = "newConfig 0"
      and LoadEnvDiff = sampleDecode and env = 0 and d = "Compute sampleBefore sampleAfter"]
    g1 d c1
  have r1: "Revert sampleDecode (newConfig 0) 0 [sampleAfter] =
     (Inr 1, [sampleAfter, Apply (Reverse (Compute sampleBefore sampleAfter)) sampleAfter])"
    by simp
  from g0 g1 r0 r1 show ?thesis by simp
qed

text \<open>
  Claim C3, as stated: when the recorded diff does not decode, \<^verbatim>\<open>Revert\<close> treats it as
  "no active diff". With no active diff \<^verbatim>\<open>Revert\<close> returns a copy of the supplied
  environment and no error. On the environment below, whose recorded diff \<^verbatim>\<open>%%%\<close> the
  decoder rejects, \<^verbatim>\<open>Revert\<close> returns the decoder's error and no environment, not the
  copy.
\<close>

theorem Revert_decode_error_counterexample:
  "getenv (deref [sampleCorrupt] (Env (newConfig 0))) DIRENV_DIFF = ''%%%'' \<and>
   sampleDecode ''%%%'' = Inl (External ''malformed diff'') \<and>
   Revert sampleDecode (newConfig 0) 0 [sampleCorrupt] \<noteq>
     (Inr 1, [sampleCorrupt, sampleCorrupt]) \<and>
   fst (Revert sampleDecode (newConfig 0) 0 [sampleCorrupt]) = Inl (External ''malformed diff'')"
proof -
  have g: "getenv (deref [sampleCorrupt] (Env (newConfig 0))) DIRENV_DIFF = ''%%%''"
    by (simp add: Env_newConfig deref_single sampleCorrupt_diff)
  have b: "sampleDecode ''%%%'' = Inl (External ''malformed diff'')"
    by (simp add: sampleDecode_def)
  have r: "Revert sampleDecode (newConfig 0) 0 [sampleCorrupt] =
           (Inl (External ''malformed diff''), [sampleCorrupt])"
    by (simp add: Revert_def g b)
  from g b r show ?thesis by simp
qed

text \<open>
  Claim C3, amended. When the recorded diff is not empty and does not decode, \<^verbatim>\<open>Revert\<close>
  returns the decoder's error and no environment; it does not fall back to the branch
  for "no diff recorded". The store is left as it was: no map is changed, no new map
  is made, no patch is applied in part.
\<close>

theorem Revert_decode_error:
  "getenv (deref h (Env config)) DIRENV_DIFF \<noteq> '''' \<Longrightarrow>
   LoadEnvDiff (getenv (deref h (Env config)) DIRENV_DIFF) = Inl err \<Longrightarrow>
   Revert LoadEnvDiff config env h = (Inl err, h)"
  by (simp add: Revert_def)

theorem Revert_decode_error_witness:
  "getenv (deref [sampleCorrupt] (Env (newConfig 0))) DIRENV_DIFF \<noteq> '''' \<and>
   sampleDecode (getenv (deref [sampleCorrupt] (Env (newConfig 0))) DIRENV_DIFF) =
     Inl (External ''malformed diff'') \<and>
   Revert sampleDecode (newConfig 0) 0 [sampleCorrupt] =
     (Inl (External ''malformed diff''), [sampleCorrupt])"
proof -
  have g: "getenv (deref [sampleCorrupt] (Env (newConfig 0))) DIRENV_DIFF = ''%%%''"
    by (simp add: Env_newConfig deref_single sampleCorrupt_diff)
  have a: "getenv (deref [sampleCorrupt] (Env (newConfig 0))) DIRENV_DIFF \<noteq> ''''"
    by (simp add: g)
  have b: "sampleDecode (getenv (deref [sampleCorrupt] (Env (newConfig 0))) DIRENV_DIFF) =
           Inl (External ''malformed diff'')"
    by (simp add: g sampleDecode_def)
  from Revert_decode_error [where LoadEnvDiff = sampleDecode, OF a b] a b show ?thesis by simp
qed

text \<open>
  Claim C9. \<^verbatim>\<open>Revert\<close> never changes the map handed to it. For every store, every
  configuration and every map \<open>env\<close> of the store (the configuration's own environment
  may be the same map), after the call \<open>env\<close> and every other map of the store read as
  before; when \<^verbatim>\<open>Revert\<close> returns an environment, in the branch without a recorded diff
  and in the branch that decodes, reverses and patches alike, it is a new map, the one
  cell added to the store; when it returns an error the store is the same.
\<close>

theorem Revert_frame:
  assumes "Revert LoadEnvDiff config env h = (res, h')" and "env < length h"
  shows "deref h' env = deref h env \<and>
         (\<forall>a < length h. deref h' a = deref h a) \<and>
         (\<forall>r. res = Inr r \<longrightarrow> r \<noteq> env \<and> r = length h \<and> length h' = Suc (length h)) \<and>
         (\<forall>err. res = Inl err \<longrightarrow> h' = h)"
  using assms
  by (auto simp: Revert_def Copy_def Patch_def alloc_def deref_def nth_append
           split: if_splits sum.splits)

theorem Revert_frame_witness:
  "Revert sampleDecode (newConfig 0) 0 [sampleAfter] = (Inr 1, [sampleAfter, sampleBefore]) \<and>
   (0::nat) < length [sampleAfter] \<and>
   deref [sampleAfter, sampleBefore] 0 = deref [sampleAfter] 0 \<and>
   (1::nat) \<noteq> 0"
proof -
  note r = Revert_sampleAfter
  have l: "(0::nat) < length [sampleAfter]" by simp
  from Revert_frame [where LoadEnvDiff = sampleDecode, OF r l] r show ?thesis by simp
qed

section \<open>Paths\<close>

lemma pathElems_slash:
  "pathElems cur (xs @ CHR ''/'' # ys) = pathElems cur xs @ pathElems [] ys"
  by (induction xs arbitrary: cur) auto

lemma pathElems_envrc: "pathElems [] ''.envrc'' = [''.envrc'']"
  by simp

lemma cleanElems_snoc:
  "e \<noteq> ''.'' \<Longrightarrow> e \<noteq> ''..'' \<Longrightarrow>
   cleanElems rooted out (es @ [e]) = cleanElems rooted out es @ [e]"
  by (induction es arbitrary: out) auto

lemma joinSep_snoc: "joinSep (xs @ [e]) = (if xs = [] then e else joinSep xs @ ''/'' @ e)"
  by (induction xs rule: joinSep.induct) auto

lemma endsInEnvrc_Clean: "endsInEnvrc (Clean (p @ ''/.envrc''))"
proof -
  let ?r = "hd (p @ ''/.envrc'') = CHR ''/''"
  let ?X = "cleanElems ?r [] (pathElems [] p)"
  have "pathElems [] (p @ ''/.envrc'') = pathElems [] p @ [''.envrc'']"
    using pathElems_slash [of "[]" p "''.envrc''"] by simp
  then have out: "cleanElems ?r [] (pathElems [] (p @ ''/.envrc'')) = ?X @ [''.envrc'']"
    by (simp add: cleanElems_snoc)
  show ?thesis
  proof (cases "?X = []")
    case True
    with out show ?thesis
      by (simp add: Clean_def Let_def endsInEnvrc_def)
  next
    case False
    with out show ?thesis
      by (simp add: Clean_def Let_def endsInEnvrc_def joinSep_snoc suffix_def)
  qed
qed

lemma endsInEnvrc_exactPath: "endsInEnvrc (exactPath p)"
proof (cases "HasSuffix p ''/.envrc''")
  case True
  then show ?thesis by (simp add: exactPath_def endsInEnvrc_def HasSuffix_def)
next
  case False
  show ?thesis
  proof (cases "p = []")
    case True
    then show ?thesis
      by (simp add: exactPath_def HasSuffix_def endsInEnvrc_def Clean_def Let_def)
  next
    case nonempty: False
    have "Join [p, ''.envrc''] = Clean (p @ ''/.envrc'')"
      using nonempty by simp
    with False show ?thesis
      by (simp add: exactPath_def endsInEnvrc_Clean del: Join.simps)
  qed
qed

lemma exactPath_home: "exactPath ''/home/x'' = ''/home/x/.envrc''"
  by (simp add: exactPath_def HasSuffix_def Clean_def Let_def suffix_to_prefix)

lemma dom_addExact: "dom (addExact ps m) = dom m \<union> exactPath ` set ps"
  unfolding addExact_def by (induction ps arbitrary: m) auto

lemma addExact_True:
  "(\<forall>p \<in> dom m. m p = Some True) \<Longrightarrow> \<forall>p \<in> dom (addExact ps m). addExact ps m p = Some True"
  unfolding addExact_def by (induction ps arbitrary: m) auto

lemma stripMarker_eq:
  "(if length s > 0 \<and> take 1 s = ''-'' then drop 1 s else s) = stripMarker s"
  by (cases s) auto


section \<open>The blocks of \<^verbatim>\<open>LoadConfig\<close>\<close>

lemma LoadConfig_sample: "LoadConfig sampleWorld [sampleEnv] 0 = Inr sampleConfig"
  by (simp add: LoadConfig_def loadConfDir_def loadSelfPath_def loadWorkDir_def loadRCDir_def
        loadToml_def findTomlPath_def loadWarnTimeout_def loadBashPath_def loadCacheDir_def
        loadDataDir_def newConfig_def sampleWorld_def sampleEnv_def sampleConfig_def
        sampleToml_def deref_def getenv_def Fetch_def DIRENV_CONFIG_def DIRENV_DIR_def
        DIRENV_BASH_def Clean_def Let_def backslashToSlash_def addExact_def exactPath_def
        HasSuffix_def suffix_to_prefix Second_def)


lemma LoadConfig_stages:
  assumes "LoadConfig w h env = Inr config"
  obtains c1 c2 c3 c4 c5 c6 where
    "loadConfDir w (deref h env) (newConfig env) = Inr c1"
    "loadSelfPath w c1 = Inr c2"
    "loadWorkDir w c2 = Inr c3"
    "loadToml w (loadRCDir (deref h env) c3) = Inr c4"
    "loadBashPath w (deref h env) (loadWarnTimeout w (deref h env) c4) = Inr c5"
    "loadCacheDir w (deref h env) c5 = Inr c6"
    "loadDataDir w (deref h env) c6 = Inr config"
  using assms by (auto simp: LoadConfig_def split: sum.splits)

lemma loadConfDir_Inr:
  "loadConfDir w e c = Inr c' \<Longrightarrow> confDirOf w e \<noteq> '''' \<and> c' = c\<lparr>ConfDir := confDirOf w e\<rparr>"
  by (auto simp: loadConfDir_def confDirOf_def Let_def split: if_splits)

lemma loadConfDir_Inl:
  "loadConfDir w e c = Inl err \<longleftrightarrow> confDirOf w e = '''' \<and> err = NoConfigDir"
  by (auto simp: loadConfDir_def confDirOf_def Let_def split: if_splits)

lemma loadSelfPath_Inr:
  "loadSelfPath w c = Inr c' \<Longrightarrow> \<exists>p. c' = c\<lparr>SelfPath := p\<rparr>"
  by (auto simp: loadSelfPath_def split: sum.splits)

lemma loadWorkDir_Inr:
  "loadWorkDir w c = Inr c' \<Longrightarrow> \<exists>p. c' = c\<lparr>WorkDir := p\<rparr>"
  by (auto simp: loadWorkDir_def split: sum.splits)

lemma loadRCDir_eq: "loadRCDir e c = c\<lparr>RCDir := stripMarker (getenv e DIRENV_DIR)\<rparr>"
  by (cases "getenv e DIRENV_DIR") (auto simp: loadRCDir_def Let_def)

lemma loadToml_Inr:
  assumes "loadToml w c = Inr c'"
  shows "(findTomlPath w (ConfDir c) = '''' \<and>
            c' = c\<lparr>WhitelistPrefix := [], WhitelistExact := Map.empty, TomlPath := ''''\<rparr>) \<or>
         (findTomlPath w (ConfDir c) \<noteq> '''' \<and>
            (\<exists>t. toml_DecodeFile w (findTomlPath w (ConfDir c)) = Inr t \<and>
               c' = c\<lparr>WhitelistPrefix := Prefix (Whitelist t),
                       WhitelistExact := addExact (Exact (Whitelist t)) Map.empty,
                       TomlPath := findTomlPath w (ConfDir c),
                       BashBuiltin := bash_builtin (Global t),
                       BashPath := bash_path (Global t),
                       DisableStdin := disable_stdin (Global t),
                       StrictEnv := strict_env (Global t),
                       WarnTimeout := warn_timeout (Global t)\<rparr>))"
  using assms by (auto simp: loadToml_def Let_def split: if_splits sum.splits)

lemma loadWarnTimeout_eq:
  "loadWarnTimeout w e c =
     (if WarnTimeout c = 0
      then c\<lparr>WarnTimeout :=
             (case time_ParseDuration w (Fetch e ''DIRENV_WARN_TIMEOUT'' ''5s'') of
                Inl err \<Rightarrow> 5 * Second | Inr d \<Rightarrow> d)\<rparr>
      else c)"
  by (auto simp: loadWarnTimeout_def split: sum.splits)

lemma loadBashPath_Inr:
  assumes "loadBashPath w e c = Inr c'"
  shows "c' = c\<lparr>BashPath :=
                 (if BashPath c \<noteq> '''' then BashPath c
                  else if getenv e DIRENV_BASH \<noteq> '''' then getenv e DIRENV_BASH
                  else if bashPath w \<noteq> '''' then bashPath w
                  else (case exec_LookPath w ''bash'' of Inr p \<Rightarrow> p | Inl err \<Rightarrow> ''''))\<rparr>"
  using assms by (auto simp: loadBashPath_def split: if_splits sum.splits)

lemma loadBashPath_Inl:
  "loadBashPath w e c = Inl err \<longleftrightarrow>
     BashPath c = '''' \<and> getenv e DIRENV_BASH = '''' \<and> bashPath w = '''' \<and>
     (\<exists>err'. exec_LookPath w ''bash'' = Inl err' \<and> err = NoBash err')"
  by (auto simp: loadBashPath_def split: if_splits sum.splits)

lemma loadCacheDir_Inr:
  "loadCacheDir w e c = Inr c' \<Longrightarrow> \<exists>p. p \<noteq> '''' \<and> c' = c\<lparr>CacheDir := p\<rparr>"
  by (auto simp: loadCacheDir_def Let_def split: if_splits)

lemma loadDataDir_Inr:
  "loadDataDir w e c = Inr c' \<Longrightarrow> \<exists>p. p \<noteq> '''' \<and> c' = c\<lparr>DataDir := p\<rparr>"
  by (auto simp: loadDataDir_def Let_def split: if_splits)


lemma loadWarnTimeout_upd:
  "loadWarnTimeout w e c =
     c\<lparr>WarnTimeout :=
         (if WarnTimeout c = 0
          then (case time_ParseDuration w (Fetch e ''DIRENV_WARN_TIMEOUT'' ''5s'') of
                  Inl err \<Rightarrow> 5 * Second | Inr d \<Rightarrow> d)
          else WarnTimeout c)\<rparr>"
  by (simp add: loadWarnTimeout_def split: sum.splits)

lemma loadCacheDir_Inr_eq:
  "loadCacheDir w e c = Inr c' \<Longrightarrow> CacheDir c = '''' \<Longrightarrow>
   xdg_CacheDir w e ''direnv'' \<noteq> '''' \<and> c' = c\<lparr>CacheDir := xdg_CacheDir w e ''direnv''\<rparr>"
  by (auto simp: loadCacheDir_def Let_def split: if_splits)

lemma loadDataDir_Inr_eq:
  "loadDataDir w e c = Inr c' \<Longrightarrow> DataDir c = '''' \<Longrightarrow>
   xdg_DataDir w e ''direnv'' \<noteq> '''' \<and> c' = c\<lparr>DataDir := xdg_DataDir w e ''direnv''\<rparr>"
  by (auto simp: loadDataDir_def Let_def split: if_splits)

lemma stage_errors:
  "loadSelfPath w c = Inl err \<Longrightarrow> \<exists>err'. err = ExecutableFailed err'"
  "loadWorkDir w c = Inl err \<Longrightarrow> \<exists>err'. err = GetwdFailed err'"
  "loadToml w c = Inl err \<Longrightarrow> \<exists>p err'. err = TomlParseFailed p err'"
  "loadCacheDir w e c = Inl err \<Longrightarrow> err = NoCacheDir"
  "loadDataDir w e c = Inl err \<Longrightarrow> err = NoDataDir"
  by (auto simp: loadSelfPath_def loadWorkDir_def loadToml_def loadCacheDir_def
        loadDataDir_def Let_def split: sum.splits if_splits)

text \<open>The configuration after the TOML block.\<close>

lemma stages_to_toml:
  assumes s1: "loadConfDir w e (newConfig env) = Inr c1"
    and s2: "loadSelfPath w c1 = Inr c2"
    and s3: "loadWorkDir w c2 = Inr c3"
    and s4: "loadToml w (loadRCDir e c3) = Inr c4"
  shows "ConfDir c4 = confDirOf w e"
    and "RCDir c4 = stripMarker (getenv e DIRENV_DIR)"
    and "TomlPath c4 = findTomlPath w (confDirOf w e)"
    and "WhitelistPrefix c4 = tomlPrefix w e"
    and "WhitelistExact c4 = addExact (tomlExact w e) Map.empty"
    and "WarnTimeout c4 = tomlWarnTimeout w e"
    and "BashPath c4 = tomlBashPath w e"
    and "CacheDir c4 = ''''"
    and "DataDir c4 = ''''"
proof -
  from loadConfDir_Inr [OF s1] have c1: "c1 = (newConfig env)\<lparr>ConfDir := confDirOf w e\<rparr>"
    by simp
  from loadSelfPath_Inr [OF s2] obtain p2 where c2: "c2 = c1\<lparr>SelfPath := p2\<rparr>" by blast
  from loadWorkDir_Inr [OF s3] obtain p3 where c3: "c3 = c2\<lparr>WorkDir := p3\<rparr>" by blast
  define c3r where "c3r = c3\<lparr>RCDir := stripMarker (getenv e DIRENV_DIR)\<rparr>"
  have s4: "loadToml w c3r = Inr c4"
    using s4 by (simp add: loadRCDir_eq c3r_def)
  have f3: "ConfDir c3r = confDirOf w e" "WarnTimeout c3r = 0" "BashPath c3r = ''''"
    "RCDir c3r = stripMarker (getenv e DIRENV_DIR)" "CacheDir c3r = ''''" "DataDir c3r = ''''"
    by (simp_all add: c3r_def c3 c2 c1 newConfig_def)
  note t = loadToml_Inr [OF s4]
  from t f3 show "ConfDir c4 = confDirOf w e"
    and "RCDir c4 = stripMarker (getenv e DIRENV_DIR)"
    and "TomlPath c4 = findTomlPath w (confDirOf w e)"
    and "CacheDir c4 = ''''" and "DataDir c4 = ''''"
    by auto
  from t f3 show "WhitelistPrefix c4 = tomlPrefix w e"
    by (auto simp: tomlPrefix_def tomlOf_def)
  from t f3 show "WhitelistExact c4 = addExact (tomlExact w e) Map.empty"
    by (auto simp: tomlExact_def tomlOf_def addExact_def)
  from t f3 show "WarnTimeout c4 = tomlWarnTimeout w e"
    by (auto simp: tomlWarnTimeout_def tomlOf_def)
  from t f3 show "BashPath c4 = tomlBashPath w e"
    by (auto simp: tomlBashPath_def tomlOf_def)
qed

lemma LoadConfig_fields:
  assumes "LoadConfig w h env = Inr config"
  shows "ConfDir config = confDirOf w (deref h env)"
    and "RCDir config = stripMarker (getenv (deref h env) DIRENV_DIR)"
    and "TomlPath config = findTomlPath w (confDirOf w (deref h env))"
    and "WhitelistPrefix config = tomlPrefix w (deref h env)"
    and "WhitelistExact config = addExact (tomlExact w (deref h env)) Map.empty"
    and "WarnTimeout config =
           (if tomlWarnTimeout w (deref h env) = 0
            then (case time_ParseDuration w (Fetch (deref h env) ''DIRENV_WARN_TIMEOUT'' ''5s'') of
                    Inl err \<Rightarrow> 5 * Second | Inr d \<Rightarrow> d)
            else tomlWarnTimeout w (deref h env))"
    and "BashPath config =
           (if tomlBashPath w (deref h env) \<noteq> '''' then tomlBashPath w (deref h env)
            else if getenv (deref h env) DIRENV_BASH \<noteq> '''' then getenv (deref h env) DIRENV_BASH
            else if bashPath w \<noteq> '''' then bashPath w
            else (case exec_LookPath w ''bash'' of Inr p \<Rightarrow> p | Inl err \<Rightarrow> ''''))"
    and "CacheDir config = xdg_CacheDir w (deref h env) ''direnv''"
    and "DataDir config = xdg_DataDir w (deref h env) ''direnv''"
    and "ConfDir config \<noteq> ''''" and "CacheDir config \<noteq> ''''" and "DataDir config \<noteq> ''''"
proof -
  let ?e = "deref h env"
  from assms obtain c1 c2 c3 c4 c5 c6 where
    s1: "loadConfDir w ?e (newConfig env) = Inr c1" and
    s2: "loadSelfPath w c1 = Inr c2" and
    s3: "loadWorkDir w c2 = Inr c3" and
    s4: "loadToml w (loadRCDir ?e c3) = Inr c4" and
    s5: "loadBashPath w ?e (loadWarnTimeout w ?e c4) = Inr c5" and
    s6: "loadCacheDir w ?e c5 = Inr c6" and
    s7: "loadDataDir w ?e c6 = Inr config"
    by (rule LoadConfig_stages)
  note f4 = stages_to_toml [OF s1 s2 s3 s4]
  define c4w where "c4w = loadWarnTimeout w ?e c4"
  have c4w: "c4w = c4\<lparr>WarnTimeout :=
         (if WarnTimeout c4 = 0
          then (case time_ParseDuration w (Fetch ?e ''DIRENV_WARN_TIMEOUT'' ''5s'') of
                  Inl err \<Rightarrow> 5 * Second | Inr d \<Rightarrow> d)
          else WarnTimeout c4)\<rparr>"
    unfolding c4w_def by (rule loadWarnTimeout_upd)
  have s5: "loadBashPath w ?e c4w = Inr c5"
    using s5 by (simp add: c4w_def)
  note c5 = loadBashPath_Inr [OF s5]
  have l5: "ConfDir c5 = ConfDir c4" "RCDir c5 = RCDir c4" "TomlPath c5 = TomlPath c4"
    "WhitelistPrefix c5 = WhitelistPrefix c4" "WhitelistExact c5 = WhitelistExact c4"
    "WarnTimeout c5 = WarnTimeout c4w" "CacheDir c5 = CacheDir c4" "DataDir c5 = DataDir c4"
    by (subst c5, simp add: c4w)+
  from loadCacheDir_Inr_eq [OF s6] l5 f4
  have c6: "c6 = c5\<lparr>CacheDir := xdg_CacheDir w ?e ''direnv''\<rparr>"
    and n6: "xdg_CacheDir w ?e ''direnv'' \<noteq> ''''"
    by simp_all
  have d6: "DataDir c6 = ''''"
    by (simp add: c6 l5 f4)
  from loadDataDir_Inr_eq [OF s7 d6]
  have c7: "config = c6\<lparr>DataDir := xdg_DataDir w ?e ''direnv''\<rparr>"
    and n7: "xdg_DataDir w ?e ''direnv'' \<noteq> ''''"
    by simp_all
  have l7: "ConfDir config = ConfDir c5" "RCDir config = RCDir c5"
    "TomlPath config = TomlPath c5" "WhitelistPrefix config = WhitelistPrefix c5"
    "WhitelistExact config = WhitelistExact c5" "WarnTimeout config = WarnTimeout c5"
    "BashPath config = BashPath c5"
    by (simp_all add: c7 c6)
  show "ConfDir config = confDirOf w ?e" by (simp add: l7 l5 f4)
  with loadConfDir_Inr [OF s1] show "ConfDir config \<noteq> ''''" by simp
  show "RCDir config = stripMarker (getenv ?e DIRENV_DIR)" by (simp add: l7 l5 f4)
  show "TomlPath config = findTomlPath w (confDirOf w ?e)" by (simp add: l7 l5 f4)
  show "WhitelistPrefix config = tomlPrefix w ?e" by (simp add: l7 l5 f4)
  show "WhitelistExact config = addExact (tomlExact w ?e) Map.empty" by (simp add: l7 l5 f4)
  show "CacheDir config = xdg_CacheDir w ?e ''direnv''" by (simp add: c7 c6)
  with n6 show "CacheDir config \<noteq> ''''" by simp
  show "DataDir config = xdg_DataDir w ?e ''direnv''" by (simp add: c7)
  with n7 show "DataDir config \<noteq> ''''" by simp
  have "WarnTimeout c4w =
          (if WarnTimeout c4 = 0
           then (case time_ParseDuration w (Fetch ?e ''DIRENV_WARN_TIMEOUT'' ''5s'') of
                   Inl err \<Rightarrow> 5 * Second | Inr d \<Rightarrow> d)
           else WarnTimeout c4)"
    by (subst c4w) simp
  then show "WarnTimeout config =
           (if tomlWarnTimeout w ?e = 0
            then (case time_ParseDuration w (Fetch ?e ''DIRENV_WARN_TIMEOUT'' ''5s'') of
                    Inl err \<Rightarrow> 5 * Second | Inr d \<Rightarrow> d)
            else tomlWarnTimeout w ?e)"
    by (simp add: l7 l5 f4)
  have b4w: "BashPath c4w = tomlBashPath w ?e"
    by (subst c4w) (simp add: f4)
  have "BashPath c5 =
          (if BashPath c4w \<noteq> '''' then BashPath c4w
           else if getenv ?e DIRENV_BASH \<noteq> '''' then getenv ?e DIRENV_BASH
           else if bashPath w \<noteq> '''' then bashPath w
           else (case exec_LookPath w ''bash'' of Inr p \<Rightarrow> p | Inl err \<Rightarrow> ''''))"
    by (subst c5) simp
  then show "BashPath config =
           (if tomlBashPath w ?e \<noteq> '''' then tomlBashPath w ?e
            else if getenv ?e DIRENV_BASH \<noteq> '''' then getenv ?e DIRENV_BASH
            else if bashPath w \<noteq> '''' then bashPath w
            else (case exec_LookPath w ''bash'' of Inr p \<Rightarrow> p | Inl err \<Rightarrow> ''''))"
    by (simp only: l7 b4w)
qed

text \<open>The bash error, and nothing else, comes from the bash block.\<close>

lemma LoadConfig_NoBash:
  assumes "LoadConfig w h env = Inl (NoBash err)"
  shows "tomlBashPath w (deref h env) = '''' \<and> getenv (deref h env) DIRENV_BASH = '''' \<and>
         bashPath w = '''' \<and> exec_LookPath w ''bash'' = Inl err"
proof -
  let ?e = "deref h env"
  from assms obtain c1 c2 c3 c4 where
    s1: "loadConfDir w ?e (newConfig env) = Inr c1" and
    s2: "loadSelfPath w c1 = Inr c2" and
    s3: "loadWorkDir w c2 = Inr c3" and
    s4: "loadToml w (loadRCDir ?e c3) = Inr c4" and
    s5: "loadBashPath w ?e (loadWarnTimeout w ?e c4) = Inl (NoBash err)"
    by (auto simp: LoadConfig_def loadConfDir_Inl split: sum.splits
             dest: stage_errors)
  have "BashPath (loadWarnTimeout w ?e c4) = tomlBashPath w ?e"
    by (subst loadWarnTimeout_upd) (simp add: stages_to_toml [OF s1 s2 s3 s4])
  with s5 show ?thesis
    by (auto simp: loadBashPath_Inl)
qed

lemma LoadConfig_no_bash:
  assumes "tomlBashPath w (deref h env) = ''''" and "getenv (deref h env) DIRENV_BASH = ''''"
    and "bashPath w = ''''" and "exec_LookPath w ''bash'' = Inl err"
  shows "isl (LoadConfig w h env)"
proof (rule ccontr)
  assume "\<not> isl (LoadConfig w h env)"
  then obtain config where ok: "LoadConfig w h env = Inr config"
    by (cases "LoadConfig w h env") auto
  let ?e = "deref h env"
  from ok obtain c1 c2 c3 c4 c5 where
    s1: "loadConfDir w ?e (newConfig env) = Inr c1" and
    s2: "loadSelfPath w c1 = Inr c2" and
    s3: "loadWorkDir w c2 = Inr c3" and
    s4: "loadToml w (loadRCDir ?e c3) = Inr c4" and
    s5: "loadBashPath w ?e (loadWarnTimeout w ?e c4) = Inr c5"
    by (rule LoadConfig_stages)
  have "BashPath (loadWarnTimeout w ?e c4) = tomlBashPath w ?e"
    by (subst loadWarnTimeout_upd) (simp add: stages_to_toml [OF s1 s2 s3 s4])
  with assms have "loadBashPath w ?e (loadWarnTimeout w ?e c4) = Inl (NoBash err)"
    by (simp add: loadBashPath_Inl)
  with s5 show False by simp
qed



lemma world_parse:
  "xdg_ConfigDir (w\<lparr>time_ParseDuration := pd\<rparr>) = xdg_ConfigDir w"
  "xdg_CacheDir (w\<lparr>time_ParseDuration := pd\<rparr>) = xdg_CacheDir w"
  "xdg_DataDir (w\<lparr>time_ParseDuration := pd\<rparr>) = xdg_DataDir w"
  "os_Executable (w\<lparr>time_ParseDuration := pd\<rparr>) = os_Executable w"
  "os_Getwd (w\<lparr>time_ParseDuration := pd\<rparr>) = os_Getwd w"
  "os_Stat (w\<lparr>time_ParseDuration := pd\<rparr>) = os_Stat w"
  "toml_DecodeFile (w\<lparr>time_ParseDuration := pd\<rparr>) = toml_DecodeFile w"
  "exec_LookPath (w\<lparr>time_ParseDuration := pd\<rparr>) = exec_LookPath w"
  "bashPath (w\<lparr>time_ParseDuration := pd\<rparr>) = bashPath w"
  by simp_all

lemma stages_parse:
  "loadConfDir (w\<lparr>time_ParseDuration := pd\<rparr>) e c = loadConfDir w e c"
  "loadSelfPath (w\<lparr>time_ParseDuration := pd\<rparr>) c = loadSelfPath w c"
  "loadWorkDir (w\<lparr>time_ParseDuration := pd\<rparr>) c = loadWorkDir w c"
  "loadToml (w\<lparr>time_ParseDuration := pd\<rparr>) c = loadToml w c"
  "loadBashPath (w\<lparr>time_ParseDuration := pd\<rparr>) e c = loadBashPath w e c"
  "loadCacheDir (w\<lparr>time_ParseDuration := pd\<rparr>) e c = loadCacheDir w e c"
  "loadDataDir (w\<lparr>time_ParseDuration := pd\<rparr>) e c = loadDataDir w e c"
  unfolding loadConfDir_def loadSelfPath_def loadWorkDir_def loadToml_def
    findTomlPath_def loadBashPath_def loadCacheDir_def loadDataDir_def world_parse
  by (rule refl)+

lemma loadBashPath_WarnTimeout:
  "loadBashPath w e (c\<lparr>WarnTimeout := x\<rparr>) =
     map_sum id (\<lambda>c'. c'\<lparr>WarnTimeout := x\<rparr>) (loadBashPath w e c)"
  by (simp add: loadBashPath_def split: sum.splits)

lemma loadCacheDir_WarnTimeout:
  "loadCacheDir w e (c\<lparr>WarnTimeout := x\<rparr>) =
     map_sum id (\<lambda>c'. c'\<lparr>WarnTimeout := x\<rparr>) (loadCacheDir w e c)"
  by (simp add: loadCacheDir_def Let_def)

lemma loadDataDir_WarnTimeout:
  "loadDataDir w e (c\<lparr>WarnTimeout := x\<rparr>) =
     map_sum id (\<lambda>c'. c'\<lparr>WarnTimeout := x\<rparr>) (loadDataDir w e c)"
  by (simp add: loadDataDir_def Let_def)

text \<open>The blocks after the warn timeout, on a configuration with any warn timeout.\<close>

lemma tail_WarnTimeout:
  "(case loadBashPath w e (c\<lparr>WarnTimeout := x\<rparr>) of
      Inl err \<Rightarrow> Inl err
    | Inr c5 \<Rightarrow> (case loadCacheDir w e c5 of
                   Inl err \<Rightarrow> Inl err
                 | Inr c6 \<Rightarrow> loadDataDir w e c6)) = Inl err \<longleftrightarrow>
   (case loadBashPath w e c of
      Inl err \<Rightarrow> Inl err
    | Inr c5 \<Rightarrow> (case loadCacheDir w e c5 of
                   Inl err \<Rightarrow> Inl err
                 | Inr c6 \<Rightarrow> loadDataDir w e c6)) = Inl err"
proof (cases "loadBashPath w e c")
  case (Inl a)
  then show ?thesis by (simp add: loadBashPath_WarnTimeout)
next
  case (Inr c5)
  show ?thesis
  proof (cases "loadCacheDir w e c5")
    case (Inl a)
    with Inr show ?thesis
      by (simp add: loadBashPath_WarnTimeout loadCacheDir_WarnTimeout)
  next
    case r6: (Inr c6)
    show ?thesis
    proof (cases "loadDataDir w e c6")
      case (Inl a)
      with Inr r6 show ?thesis
        by (simp add: loadBashPath_WarnTimeout loadCacheDir_WarnTimeout loadDataDir_WarnTimeout)
    next
      case r7: (Inr c7)
      with Inr r6 show ?thesis
        by (simp add: loadBashPath_WarnTimeout loadCacheDir_WarnTimeout loadDataDir_WarnTimeout)
    qed
  qed
qed

lemma LoadConfig_parse_indep:
  "LoadConfig (w\<lparr>time_ParseDuration := pd\<rparr>) h env = Inl err \<longleftrightarrow>
   LoadConfig w h env = Inl err"
proof -
  let ?e = "deref h env"
  define T where "T = (\<lambda>c.
     case loadBashPath w ?e c of
       Inl err \<Rightarrow> Inl err
     | Inr c5 \<Rightarrow> (case loadCacheDir w ?e c5 of
                    Inl err \<Rightarrow> Inl err
                  | Inr c6 \<Rightarrow> loadDataDir w ?e c6))"
  have tail: "T (loadWarnTimeout w' ?e c4) = Inl err \<longleftrightarrow> T c4 = Inl err" for w' c4
    unfolding T_def by (subst loadWarnTimeout_upd) (rule tail_WarnTimeout)
  have shape: "LoadConfig w' h env =
     (case loadConfDir w' ?e (newConfig env) of
        Inl err \<Rightarrow> Inl err
      | Inr c1 \<Rightarrow>
     (case loadSelfPath w' c1 of
        Inl err \<Rightarrow> Inl err
      | Inr c2 \<Rightarrow>
     (case loadWorkDir w' c2 of
        Inl err \<Rightarrow> Inl err
      | Inr c3 \<Rightarrow>
     (case loadToml w' (loadRCDir ?e c3) of
        Inl err \<Rightarrow> Inl err
      | Inr c4 \<Rightarrow> T (loadWarnTimeout w' ?e c4)))))"
    if "loadBashPath w' = loadBashPath w" "loadCacheDir w' = loadCacheDir w"
      "loadDataDir w' = loadDataDir w" for w'
    unfolding T_def LoadConfig_def that by (rule refl)
  have same: "loadBashPath (w\<lparr>time_ParseDuration := pd\<rparr>) = loadBashPath w"
    "loadCacheDir (w\<lparr>time_ParseDuration := pd\<rparr>) = loadCacheDir w"
    "loadDataDir (w\<lparr>time_ParseDuration := pd\<rparr>) = loadDataDir w"
    by (intro ext, simp add: stages_parse)+
  show ?thesis
    unfolding shape [OF same] shape [OF refl refl refl]
    by (simp add: stages_parse tail split: sum.splits)
qed


section \<open>The sample machine\<close>

lemma sampleEnv_values:
  "getenv (deref [sampleEnv] 0) DIRENV_DIR = ''-/proj''"
  "getenv (deref [sampleEnv] 0) DIRENV_CONFIG = ''''"
  "getenv (deref [sampleEnv] 0) DIRENV_BASH = ''''"
  "getenv (deref [sampleEnv] 0) DIRENV_WATCHES = ''w1''"
  "deref [sampleEnv] 0 ''DIRENV_WARN_TIMEOUT'' = Some ''soon''"
  by (simp_all add: deref_def sampleEnv_def getenv_def DIRENV_DIR_def DIRENV_CONFIG_def
        DIRENV_BASH_def DIRENV_WATCHES_def)

lemma sampleWorld_toml:
  "tomlOf sampleWorld (deref [sampleEnv] 0) = Some (Inr sampleToml)"
  by (simp add: tomlOf_def confDirOf_def findTomlPath_def sampleWorld_def sampleEnv_values
        Clean_def Let_def)

lemma sampleWorld_values:
  "tomlPrefix sampleWorld (deref [sampleEnv] 0) = [''/home/x'']"
  "tomlExact sampleWorld (deref [sampleEnv] 0) = [''/home/x'', ''/srv/app/.envrc'']"
  "tomlWarnTimeout sampleWorld (deref [sampleEnv] 0) = 0"
  "tomlBashPath sampleWorld (deref [sampleEnv] 0) = ''''"
  by (simp_all add: tomlPrefix_def tomlExact_def tomlWarnTimeout_def tomlBashPath_def
        sampleWorld_toml sampleToml_def)

lemma bashWorld_values:
  "tomlBashPath bashWorld (deref [bashEnv] 0) = ''/opt/bash''"
  "getenv (deref [bashEnv] 0) DIRENV_BASH = ''/env/bash''"
  "bashPath bashWorld = ''/usr/local/bin/bash''"
  by (simp_all add: tomlBashPath_def tomlOf_def confDirOf_def findTomlPath_def bashWorld_def
        sampleWorld_def sampleToml_def bashEnv_def deref_def getenv_def DIRENV_CONFIG_def
        DIRENV_BASH_def Clean_def Let_def)

lemma LoadConfig_bashWorld:
  "map_sum id BashPath (LoadConfig bashWorld [bashEnv] 0) = Inr ''/opt/bash''"
  by (simp add: LoadConfig_def loadConfDir_def loadSelfPath_def loadWorkDir_def loadRCDir_def
        loadToml_def findTomlPath_def loadWarnTimeout_def loadBashPath_def loadCacheDir_def
        loadDataDir_def newConfig_def bashWorld_def sampleWorld_def bashEnv_def
        sampleToml_def deref_def getenv_def Fetch_def DIRENV_CONFIG_def DIRENV_DIR_def
        DIRENV_BASH_def Clean_def Let_def backslashToSlash_def addExact_def exactPath_def
        HasSuffix_def suffix_to_prefix Second_def)

lemma bashlessWorld_values:
  "tomlBashPath bashlessWorld (deref [sampleEnv] 0) = ''''"
  "bashPath bashlessWorld = ''''"
  "exec_LookPath bashlessWorld ''bash'' = Inl (External ''not found'')"
  by (simp_all add: tomlBashPath_def tomlOf_def confDirOf_def findTomlPath_def bashlessWorld_def
        sampleWorld_def sampleToml_def sampleEnv_values Clean_def Let_def)

section \<open>LoadConfig and LoadedRC\<close>

text \<open>
  Claim C4, as stated: both the exact entries and the prefix entries of the whitelist
  are normalized to end in \<^verbatim>\<open>.envrc\<close>. On the sample machine the TOML file lists the
  prefix \<^verbatim>\<open>/home/x\<close>; \<^verbatim>\<open>LoadConfig\<close> succeeds and stores the prefix as it is written,
  and it does not end in \<^verbatim>\<open>.envrc\<close>.
\<close>

theorem LoadConfig_whitelist_counterexample:
  "map_sum id WhitelistPrefix (LoadConfig sampleWorld [sampleEnv] 0) = Inr [''/home/x''] \<and>
   tomlPrefix sampleWorld (deref [sampleEnv] 0) = [''/home/x''] \<and>
   \<not> HasSuffix ''/home/x'' ''.envrc''"
  by (simp add: LoadConfig_sample sampleConfig_def sampleWorld_values HasSuffix_def
        suffix_to_prefix)

text \<open>
  Claim C4, amended. For every whitelist loaded from the TOML file, the exact entries
  are normalized to end in the script's file name: the keys of \<^verbatim>\<open>WhitelistExact\<close> are
  the entries after \<^verbatim>\<open>exactPath\<close>, each maps to \<^verbatim>\<open>true\<close>, and each is \<^verbatim>\<open>.envrc\<close> or ends
  in \<^verbatim>\<open>/.envrc\<close>; so the exact entry \<^verbatim>\<open>/home/x\<close> is stored as \<^verbatim>\<open>/home/x/.envrc\<close>, the key
  a trust query for that script looks up. The prefix entries are stored as the file
  gives them, in order, without normalization.
\<close>

theorem LoadConfig_whitelist:
  assumes "LoadConfig w h env = Inr config"
  shows "WhitelistPrefix config = tomlPrefix w (deref h env) \<and>
         dom (WhitelistExact config) = exactPath ` set (tomlExact w (deref h env)) \<and>
         (\<forall>p \<in> set (tomlExact w (deref h env)). WhitelistExact config (exactPath p) = Some True) \<and>
         (\<forall>p \<in> dom (WhitelistExact config). endsInEnvrc p) \<and>
         exactPath ''/home/x'' = ''/home/x/.envrc''"
proof -
  let ?xs = "tomlExact w (deref h env)"
  note f = LoadConfig_fields [OF assms]
  have d: "dom (WhitelistExact config) = exactPath ` set ?xs"
    by (simp add: f(5) dom_addExact)
  have t: "\<forall>p \<in> dom (WhitelistExact config). WhitelistExact config p = Some True"
    unfolding f(5) by (rule addExact_True) simp
  have e: "\<forall>p \<in> dom (WhitelistExact config). endsInEnvrc p"
    unfolding d by (simp add: endsInEnvrc_exactPath)
  from d t have m: "\<forall>p \<in> set ?xs. WhitelistExact config (exactPath p) = Some True"
    by blast
  from f(4) d m e exactPath_home show ?thesis by blast
qed

theorem LoadConfig_whitelist_witness:
  "LoadConfig sampleWorld [sampleEnv] 0 = Inr sampleConfig \<and>
   tomlPrefix sampleWorld (deref [sampleEnv] 0) = [''/home/x''] \<and>
   tomlExact sampleWorld (deref [sampleEnv] 0) = [''/home/x'', ''/srv/app/.envrc''] \<and>
   WhitelistPrefix sampleConfig = [''/home/x''] \<and>
   dom (WhitelistExact sampleConfig) = {''/home/x/.envrc'', ''/srv/app/.envrc''} \<and>
   WhitelistExact sampleConfig ''/home/x/.envrc'' = Some True"
proof -
  have x: "exactPath ''/srv/app/.envrc'' = ''/srv/app/.envrc''"
    by (simp add: exactPath_def HasSuffix_def suffix_to_prefix)
  from LoadConfig_whitelist [OF LoadConfig_sample] LoadConfig_sample x show ?thesis
    by (auto simp: sampleWorld_values)
qed

text \<open>
  Claim C5. For every environment, the configuration \<^verbatim>\<open>LoadConfig\<close> returns records in
  \<^verbatim>\<open>RCDir\<close> the value of \<^verbatim>\<open>DIRENV_DIR\<close> with one leading \<^verbatim>\<open>-\<close> dropped when the value
  starts with it, and the value as it is otherwise (the empty string when the variable
  is unset).
\<close>

theorem LoadConfig_RCDir:
  "LoadConfig w h env = Inr config \<Longrightarrow>
   RCDir config = stripMarker (getenv (deref h env) DIRENV_DIR)"
  by (rule LoadConfig_fields)

theorem LoadConfig_RCDir_witness:
  "LoadConfig sampleWorld [sampleEnv] 0 = Inr sampleConfig \<and>
   getenv (deref [sampleEnv] 0) DIRENV_DIR = ''-/proj'' \<and>
   RCDir sampleConfig = ''/proj''"
  using LoadConfig_RCDir [OF LoadConfig_sample] LoadConfig_sample
  by (simp add: sampleEnv_values)



text \<open>
  Claim C7. When \<^verbatim>\<open>LoadConfig\<close> returns a configuration and the TOML file sets no
  nonzero warn timeout (there is no file, or its \<^verbatim>\<open>warn_timeout\<close> is zero), the timeout
  comes from \<^verbatim>\<open>DIRENV_WARN_TIMEOUT\<close>: five seconds when the variable is unset (the
  default \<^verbatim>\<open>5s\<close> is parsed, and \<^verbatim>\<open>time.ParseDuration\<close> reads it as five seconds), the
  parsed duration when the variable holds one, and five seconds when it holds an
  invalid duration. An invalid duration does not make \<^verbatim>\<open>LoadConfig\<close> fail: whatever
  the parser answers, \<^verbatim>\<open>LoadConfig\<close> returns the same error or none.
\<close>

theorem LoadConfig_WarnTimeout:
  "(LoadConfig w h env = Inr config \<longrightarrow> tomlWarnTimeout w (deref h env) = 0 \<longrightarrow>
      (deref h env ''DIRENV_WARN_TIMEOUT'' = None \<longrightarrow>
       time_ParseDuration w ''5s'' = Inr (5 * Second) \<longrightarrow> WarnTimeout config = 5 * Second) \<and>
      (\<forall>v d. deref h env ''DIRENV_WARN_TIMEOUT'' = Some v \<longrightarrow>
             time_ParseDuration w v = Inr d \<longrightarrow> WarnTimeout config = d) \<and>
      (\<forall>v err. deref h env ''DIRENV_WARN_TIMEOUT'' = Some v \<longrightarrow>
             time_ParseDuration w v = Inl err \<longrightarrow> WarnTimeout config = 5 * Second)) \<and>
   (\<forall>pd err. LoadConfig (w\<lparr>time_ParseDuration := pd\<rparr>) h env = Inl err \<longleftrightarrow>
              LoadConfig w h env = Inl err)"
proof -
  have "WarnTimeout config =
          (case time_ParseDuration w (Fetch (deref h env) ''DIRENV_WARN_TIMEOUT'' ''5s'') of
             Inl err \<Rightarrow> 5 * Second | Inr d \<Rightarrow> d)"
    if "LoadConfig w h env = Inr config" "tomlWarnTimeout w (deref h env) = 0"
    using LoadConfig_fields(6) [OF that(1)] that(2) by simp
  then show ?thesis
    by (auto simp: Fetch_def LoadConfig_parse_indep)
qed

theorem LoadConfig_WarnTimeout_witness:
  "LoadConfig sampleWorld [sampleEnv] 0 = Inr sampleConfig \<and>
   tomlWarnTimeout sampleWorld (deref [sampleEnv] 0) = 0 \<and>
   deref [sampleEnv] 0 ''DIRENV_WARN_TIMEOUT'' = Some ''soon'' \<and>
   time_ParseDuration sampleWorld ''soon'' = Inl (External ''invalid duration'') \<and>
   WarnTimeout sampleConfig = 5 * Second"
proof -
  have p: "time_ParseDuration sampleWorld ''soon'' = Inl (External ''invalid duration'')"
    by (simp add: sampleWorld_def)
  from LoadConfig_WarnTimeout [of sampleWorld "[sampleEnv]" 0 sampleConfig]
    LoadConfig_sample sampleWorld_values(3) sampleEnv_values(5) p
  show ?thesis by blast
qed



text \<open>
  Claim C10. The bash path of a configuration that \<^verbatim>\<open>LoadConfig\<close> returns is the
  \<^verbatim>\<open>bash_path\<close> of the TOML file when the file sets one; else \<^verbatim>\<open>DIRENV_BASH\<close> when it
  is set and not empty; else the compiled-in default when there is one; else what the
  lookup of \<^verbatim>\<open>bash\<close> on the \<^verbatim>\<open>PATH\<close> finds. \<^verbatim>\<open>LoadConfig\<close> returns the error of this
  block ("can't find bash") only when all four sources are unavailable, and when
  all four are unavailable it returns an error.
\<close>

theorem LoadConfig_BashPath:
  "(LoadConfig w h env = Inr config \<longrightarrow>
      BashPath config =
        (if tomlBashPath w (deref h env) \<noteq> '''' then tomlBashPath w (deref h env)
         else if getenv (deref h env) DIRENV_BASH \<noteq> '''' then getenv (deref h env) DIRENV_BASH
         else if bashPath w \<noteq> '''' then bashPath w
         else (case exec_LookPath w ''bash'' of Inr p \<Rightarrow> p | Inl err \<Rightarrow> ''''))) \<and>
   (\<forall>err. LoadConfig w h env = Inl (NoBash err) \<longrightarrow>
      tomlBashPath w (deref h env) = '''' \<and> getenv (deref h env) DIRENV_BASH = '''' \<and>
      bashPath w = '''' \<and> exec_LookPath w ''bash'' = Inl err) \<and>
   (\<forall>err. tomlBashPath w (deref h env) = '''' \<and> getenv (deref h env) DIRENV_BASH = '''' \<and>
      bashPath w = '''' \<and> exec_LookPath w ''bash'' = Inl err \<longrightarrow>
      isl (LoadConfig w h env))"
  using LoadConfig_fields(7) [of w h env config] LoadConfig_NoBash [of w h env]
    LoadConfig_no_bash [of w h env]
  by blast

theorem LoadConfig_BashPath_witness:
  "LoadConfig sampleWorld [sampleEnv] 0 = Inr sampleConfig \<and>
   tomlBashPath sampleWorld (deref [sampleEnv] 0) = '''' \<and>
   getenv (deref [sampleEnv] 0) DIRENV_BASH = '''' \<and>
   bashPath sampleWorld = '''' \<and>
   exec_LookPath sampleWorld ''bash'' = Inr ''/bin/bash'' \<and>
   BashPath sampleConfig = ''/bin/bash'' \<and>
   tomlBashPath bashWorld (deref [bashEnv] 0) = ''/opt/bash'' \<and>
   getenv (deref [bashEnv] 0) DIRENV_BASH = ''/env/bash'' \<and>
   map_sum id BashPath (LoadConfig bashWorld [bashEnv] 0) = Inr ''/opt/bash'' \<and>
   exec_LookPath bashlessWorld ''bash'' = Inl (External ''not found'') \<and>
   isl (LoadConfig bashlessWorld [sampleEnv] 0)"
proof -
  have s: "bashPath sampleWorld = ''''" "exec_LookPath sampleWorld ''bash'' = Inr ''/bin/bash''"
    by (simp_all add: sampleWorld_def)
  from LoadConfig_BashPath [of sampleWorld "[sampleEnv]" 0 sampleConfig] LoadConfig_sample
  have a: "BashPath sampleConfig = ''/bin/bash''"
    by (simp add: sampleWorld_values sampleEnv_values s)
  from LoadConfig_BashPath [of bashlessWorld "[sampleEnv]" 0 sampleConfig]
  have b: "isl (LoadConfig bashlessWorld [sampleEnv] 0)"
    by (simp add: bashlessWorld_values sampleEnv_values)
  from a b LoadConfig_sample s show ?thesis
    by (simp add: sampleWorld_values sampleEnv_values bashWorld_values bashlessWorld_values
          LoadConfig_bashWorld)
qed

end
